theory Spec2Isabelle
  imports Main "HOL-Library.Word"
begin

section \<open>dicedb\_py: wire types, framed transport and client\<close>

text \<open>
  A shallow embedding of \<^verbatim>\<open>dicedb_py/wire.py\<close>, \<^verbatim>\<open>dicedb_py/io.py\<close> and
  \<^verbatim>\<open>dicedb_py/client.py\<close>.

  Python strings are lists of characters, read as the code points U+0000 to U+00FF.
  Bytes are 8-bit words. Exceptions are values of \<open>exn\<close>; a function that can raise
  returns a sum whose \<open>Inl\<close> is the exception. Names that start with an underscore in
  the source (\<^verbatim>\<open>_connect\<close>, \<^verbatim>\<open>_fire\<close>, \<^verbatim>\<open>_watch\<close>) carry the prefix \<open>priv_\<close> here.
\<close>

type_synonym byte = "8 word"

datatype exn =
    ConnectionError string
  | IndexError
  | AttributeError
  | Raised string

text \<open>\<^verbatim>\<open>str(e)\<close> of an exception.\<close>

fun str_of_exn :: "exn \<Rightarrow> string" where
  "str_of_exn (ConnectionError m) = m"
| "str_of_exn IndexError = ''list index out of range''"
| "str_of_exn AttributeError = ''NoneType object has no attribute''"
| "str_of_exn (Raised m) = m"

subsection \<open>wire.py\<close>

record command =
  cmd :: string
  args :: "string list"

definition Command :: "string \<Rightarrow> string list \<Rightarrow> command" where
  "Command c a = \<lparr>cmd = c, args = a\<rparr>"

datatype ValueType = T_NIL | T_INT | T_STR | T_FLOAT | T_BYTES

text \<open>
  The dynamically typed \<^verbatim>\<open>value\<close> field. A float is kept as its IEEE-754 bit pattern,
  so that \<^verbatim>\<open>0.0\<close> is the pattern \<open>0\<close>.
\<close>

datatype pyval =
    PyNone
  | PyBool bool
  | PyInt int
  | PyStr string
  | PyFloat "64 word"
  | PyBytes "byte list"
  | PyList "pyval list"

record response =
  err :: string
  value_type :: "ValueType option"
  rvalue :: pyval
  attrs :: "(string \<times> pyval) list option"
  v_list :: "pyval list option"
  v_ss_map :: "(string \<times> string) list option"

text \<open>\<^verbatim>\<open>Response(err=e)\<close>: every other field takes its dataclass default.\<close>

definition Response_err :: "string \<Rightarrow> response" where
  "Response_err e =
     \<lparr>err = e, value_type = None, rvalue = PyNone, attrs = None, v_list = None,
      v_ss_map = None\<rparr>"

definition v_nil :: "response \<Rightarrow> bool" where
  "v_nil r = (value_type r = Some T_NIL)"

definition v_int :: "response \<Rightarrow> pyval" where
  "v_int r = (if value_type r = Some T_INT then rvalue r else PyInt 0)"

definition v_str :: "response \<Rightarrow> pyval" where
  "v_str r = (if value_type r = Some T_STR then rvalue r else PyStr [])"

definition v_float :: "response \<Rightarrow> pyval" where
  "v_float r = (if value_type r = Some T_FLOAT then rvalue r else PyFloat 0)"

definition v_bytes :: "response \<Rightarrow> pyval" where
  "v_bytes r = (if value_type r = Some T_BYTES then rvalue r else PyBytes [])"

subsection \<open>Python string operations\<close>

text \<open>\<^verbatim>\<open>str.isspace\<close> on one character below U+0100.\<close>

definition py_isspace :: "char \<Rightarrow> bool" where
  "py_isspace ch =
     (let k = of_char ch :: nat
      in (9 \<le> k \<and> k \<le> 13) \<or> (28 \<le> k \<and> k \<le> 32) \<or> k = 133 \<or> k = 160)"

text \<open>\<^verbatim>\<open>s.strip()\<close>.\<close>

definition py_strip :: "string \<Rightarrow> string" where
  "py_strip s = rev (dropWhile py_isspace (rev (dropWhile py_isspace s)))"

text \<open>
  \<^verbatim>\<open>s.split()\<close> with no separator: runs of whitespace separate the tokens, and no
  token is empty. \<open>split_acc\<close> carries the token being read, reversed.
\<close>

fun split_acc :: "string \<Rightarrow> string \<Rightarrow> string list" where
  "split_acc tok [] = (if tok = [] then [] else [rev tok])"
| "split_acc tok (ch # s) =
     (if py_isspace ch then (if tok = [] then split_acc [] s else rev tok # split_acc [] s)
      else split_acc (ch # tok) s)"

definition py_split :: "string \<Rightarrow> string list" where
  "py_split s = split_acc [] s"

text \<open>\<^verbatim>\<open>p in s\<close> for strings: \<open>p\<close> occurs in \<open>s\<close> as a contiguous piece.\<close>

fun startswith :: "string \<Rightarrow> string \<Rightarrow> bool" where
  "startswith s [] = True"
| "startswith [] (p # ps) = False"
| "startswith (x # xs) (p # ps) = (x = p \<and> startswith xs ps)"

fun py_in :: "string \<Rightarrow> string \<Rightarrow> bool" where
  "py_in p [] = (p = [])"
| "py_in p (x # xs) = (startswith (x # xs) p \<or> py_in p xs)"

subsection \<open>Sockets\<close>

text \<open>
  What a socket will meet is given by the environment as a script. Each \<^verbatim>\<open>recv\<close>
  consumes the head of \<open>inbox\<close>: bytes that have arrived, a \<^verbatim>\<open>socket.error\<close>, or some
  other exception. An empty inbox stands for a peer that has closed the stream
  (\<^verbatim>\<open>recv\<close> returns \<^verbatim>\<open>b""\<close>). Each \<^verbatim>\<open>sendall\<close> consumes the head of \<open>sendres\<close>
  (\<open>True\<close>: the bytes were sent); an empty \<open>sendres\<close> lets the send succeed. A socket
  that is not connected, or is closed, fails every operation with a \<^verbatim>\<open>socket.error\<close>.
\<close>

datatype recv_event =
    Chunk "byte list"
  | SocketError string
  | Raise string

record sock =
  connected :: bool
  closed :: bool
  inbox :: "recv_event list"
  sendres :: "bool list"
  sent :: "byte list list"

datatype recv_result =
    RecvBytes "byte list"
  | RecvSocketError string
  | RecvRaised string

definition recv :: "nat \<Rightarrow> sock \<Rightarrow> recv_result \<times> sock" where
  "recv bufsize s =
     (if \<not> connected s \<or> closed s then (RecvSocketError ''[Errno 9] Bad file descriptor'', s)
      else case inbox s of
        [] \<Rightarrow> (RecvBytes [], s)
      | Chunk bs # rest \<Rightarrow>
          (if length bs \<le> bufsize then (RecvBytes bs, s\<lparr>inbox := rest\<rparr>)
           else (RecvBytes (take bufsize bs), s\<lparr>inbox := Chunk (drop bufsize bs) # rest\<rparr>))
      | SocketError m # rest \<Rightarrow> (RecvSocketError m, s\<lparr>inbox := rest\<rparr>)
      | Raise m # rest \<Rightarrow> (RecvRaised m, s\<lparr>inbox := rest\<rparr>))"

text \<open>\<^verbatim>\<open>conn.sendall(data)\<close>: \<open>True\<close> when it returned, \<open>False\<close> when it raised.\<close>

definition sendall :: "byte list \<Rightarrow> sock \<Rightarrow> bool \<times> sock" where
  "sendall data s =
     (if \<not> connected s \<or> closed s then (False, s)
      else case sendres s of
        [] \<Rightarrow> (True, s\<lparr>sent := sent s @ [data]\<rparr>)
      | ok # rest \<Rightarrow>
          (if ok then (True, s\<lparr>sendres := rest, sent := sent s @ [data]\<rparr>)
           else (False, s\<lparr>sendres := rest\<rparr>)))"

subsection \<open>io.py\<close>

definition MAX_REQUEST_SIZE :: nat where
  "MAX_REQUEST_SIZE = 32 * 1024 * 1024"

definition IO_BUFFER_SIZE :: nat where
  "IO_BUFFER_SIZE = 16 * 1024"

definition IDLE_TIMEOUT :: nat where
  "IDLE_TIMEOUT = 30 * 60"

text \<open>
  The serializer is the \<^verbatim>\<open>pickle\<close> module, which is not part of the repository: it is a
  parameter. \<open>dumps\<close> is \<^verbatim>\<open>pickle.dumps\<close> on a Command; \<open>loads\<close> is \<^verbatim>\<open>pickle.loads\<close>,
  which returns the Response the bytes stand for (\<open>Inr\<close>) or raises an exception with
  a message (\<open>Inl\<close>).
\<close>

record pickle =
  dumps :: "command \<Rightarrow> byte list"
  loads :: "byte list \<Rightarrow> string + response"

definition serialize :: "pickle \<Rightarrow> command \<Rightarrow> byte list" where
  "serialize K c = dumps K c"

definition deserialize :: "pickle \<Rightarrow> byte list \<Rightarrow> response" where
  "deserialize K data =
     (case loads K data of
        Inr r \<Rightarrow> r
      | Inl e \<Rightarrow> Response_err (''Failed to deserialize response: '' @ e))"

text \<open>The code after the loop of \<^verbatim>\<open>read\<close>.\<close>

definition read_finish :: "pickle \<Rightarrow> byte list \<Rightarrow> response" where
  "read_finish K result =
     (if result = [] then Response_err ''Empty response or connection closed''
      else deserialize K result)"

fun inbox_size :: "recv_event list \<Rightarrow> nat" where
  "inbox_size [] = 0"
| "inbox_size (Chunk bs # rest) = Suc (length bs) + inbox_size rest"
| "inbox_size (ev # rest) = Suc (inbox_size rest)"

lemma recv_bytes_smaller:
  "recv bufsize s = (RecvBytes chunk, s') \<Longrightarrow> chunk \<noteq> [] \<Longrightarrow>
   inbox_size (inbox s') < inbox_size (inbox s)"
  by (auto simp: recv_def split: if_splits list.splits recv_event.splits)

text \<open>
  The \<^verbatim>\<open>while True\<close> loop of \<^verbatim>\<open>read\<close>, with \<open>result\<close> the bytearray so far. An
  exception other than \<^verbatim>\<open>socket.error\<close> is not caught and leaves \<^verbatim>\<open>read\<close>.
\<close>

function read_loop :: "pickle \<Rightarrow> sock \<Rightarrow> byte list \<Rightarrow> (exn + response) \<times> sock" where
  "read_loop K s result =
     (case recv IO_BUFFER_SIZE s of
        (RecvSocketError m, s') \<Rightarrow> (Inr (Response_err m), s')
      | (RecvRaised m, s') \<Rightarrow> (Inl (Raised m), s')
      | (RecvBytes chunk, s') \<Rightarrow>
          (if chunk = [] then (Inr (read_finish K result), s')
           else if length result + length chunk > MAX_REQUEST_SIZE
             then (Inr (Response_err ''Request too large''), s')
           else if length chunk < IO_BUFFER_SIZE
             then (Inr (read_finish K (result @ chunk)), s')
           else read_loop K s' (result @ chunk)))"
  by pat_completeness auto
termination
  by (relation "measure (\<lambda>(K, s, result). inbox_size (inbox s))")
     (auto dest: recv_bytes_smaller [OF sym])

declare read_loop.simps [simp del]

text \<open>\<^verbatim>\<open>read\<close>, called \<^verbatim>\<open>dice_io.read\<close> by the client.\<close>

definition dice_io_read :: "pickle \<Rightarrow> sock \<Rightarrow> (exn + response) \<times> sock" where
  "dice_io_read K s = read_loop K s []"

text \<open>\<^verbatim>\<open>write\<close>: every exception of the send is caught and becomes \<open>False\<close>.\<close>

definition dice_io_write :: "pickle \<Rightarrow> sock \<Rightarrow> command \<Rightarrow> bool \<times> sock" where
  "dice_io_write K s c = sendall (serialize K c) s"

subsection \<open>The network\<close>

text \<open>
  The environment also fixes what each future \<^verbatim>\<open>connect\<close> meets: the server accepts
  and the new socket gets a script, or the connection fails with a \<^verbatim>\<open>socket.error\<close>.
  When the list is used up every further \<^verbatim>\<open>connect\<close> is refused. \<open>dials\<close> counts
  the calls of \<^verbatim>\<open>connect\<close>, \<open>closed_socks\<close> collects the sockets that were closed, in
  order and with what they had sent, and \<open>threads_started\<close> counts the background
  threads.
\<close>

datatype dial_outcome =
    Accepted "recv_event list" "bool list"
  | Refused string

record world =
  pending :: "dial_outcome list"
  dials :: nat
  closed_socks :: "sock list"
  threads_started :: nat

definition new_sock :: sock where
  "new_sock = \<lparr>connected = False, closed = False, inbox = [], sendres = [], sent = []\<rparr>"

text \<open>
  \<^verbatim>\<open>socket.socket(AF_INET, SOCK_STREAM)\<close>, \<^verbatim>\<open>settimeout(5)\<close> and \<^verbatim>\<open>connect\<close>. The
  socket object exists whether or not the connection is made.
\<close>

definition socket_connect :: "world \<Rightarrow> (string + unit) \<times> sock \<times> world" where
  "socket_connect w =
     (case pending w of
        [] \<Rightarrow> (Inl ''[Errno 111] Connection refused'', new_sock, w\<lparr>dials := Suc (dials w)\<rparr>)
      | Refused m # rest \<Rightarrow>
          (Inl m, new_sock, w\<lparr>pending := rest, dials := Suc (dials w)\<rparr>)
      | Accepted ib sr # rest \<Rightarrow>
          (Inr (), new_sock\<lparr>connected := True, inbox := ib, sendres := sr\<rparr>,
           w\<lparr>pending := rest, dials := Suc (dials w)\<rparr>))"

definition socket_close :: "sock \<Rightarrow> world \<Rightarrow> world" where
  "socket_close s w = w\<lparr>closed_socks := closed_socks w @ [s\<lparr>closed := True\<rparr>]\<rparr>"

subsection \<open>client.py\<close>

text \<open>
  The attributes of a \<^verbatim>\<open>Client\<close>. \<open>ident\<close> is \<^verbatim>\<open>self.id\<close>. \<open>watch_ch_attr\<close> is the
  attribute \<^verbatim>\<open>self.watch_ch\<close>: \<open>None\<close>, or the \<^verbatim>\<open>threading.Event\<close> with its flag.
  \<open>watch_queue\<close> is the list the background thread appends to. The lock and the
  condition variable do nothing in a single flow of control and are left out, and so
  is what \<^verbatim>\<open>print\<close> writes.
\<close>

record client =
  host :: string
  port :: int
  ident :: string
  conn :: "sock option"
  watch_conn :: "sock option"
  watch_ch_attr :: "bool option"
  watch_queue :: "response list"
  priv_watch_thread :: bool

fun str_of_nat :: "nat \<Rightarrow> string" where
  "str_of_nat n =
     (if n < 10 then [''0123456789'' ! n]
      else str_of_nat (n div 10) @ [''0123456789'' ! (n mod 10)])"

declare str_of_nat.simps [simp del]

definition str_of_int :: "int \<Rightarrow> string" where
  "str_of_int i = (if i < 0 then CHR ''-'' # str_of_nat (nat (- i)) else str_of_nat (nat i))"



definition priv_connect :: "client \<Rightarrow> world \<Rightarrow> (exn + unit) \<times> client \<times> world" where
  "priv_connect c w =
     (case socket_connect w of
        (Inl m, s, w') \<Rightarrow>
          (Inl (ConnectionError
                  (''Failed to connect to '' @ host c @ '':'' @ str_of_int (port c) @ '': '' @ m)),
           c\<lparr>conn := Some s\<rparr>, w')
      | (Inr u, s, w') \<Rightarrow> (Inr (), c\<lparr>conn := Some s\<rparr>, w'))"

text \<open>
  \<^verbatim>\<open>_fire(cmd, conn)\<close>, returning the socket as it is afterwards. With \<^verbatim>\<open>conn\<close> being
  \<^verbatim>\<open>None\<close> the send raises inside \<^verbatim>\<open>write\<close>, which returns \<open>False\<close>.
\<close>

definition priv_fire :: "pickle \<Rightarrow> command \<Rightarrow> sock option \<Rightarrow> (exn + response) \<times> sock option" where
  "priv_fire K c so =
     (case so of
        None \<Rightarrow> (Inr (Response_err ''Failed to write command to socket''), None)
      | Some s \<Rightarrow>
          (case dice_io_write K s c of
             (False, s') \<Rightarrow> (Inr (Response_err ''Failed to write command to socket''), Some s')
           | (True, s') \<Rightarrow> (case dice_io_read K s' of (r, s'') \<Rightarrow> (r, Some s''))))"

definition handshake :: "client \<Rightarrow> string \<Rightarrow> command" where
  "handshake c kind = Command ''HANDSHAKE'' [ident c, kind]"

text \<open>
  \<^verbatim>\<open>check_and_reconnect\<close>. Every exception raised inside its \<^verbatim>\<open>try\<close> makes it return
  \<open>False\<close>.
\<close>

definition check_and_reconnect :: "pickle \<Rightarrow> string \<Rightarrow> client \<Rightarrow> world \<Rightarrow> bool \<times> client \<times> world" where
  "check_and_reconnect K error c w =
     (if py_in ''EOF'' error \<or> py_in ''Broken pipe'' error then
        (let w1 = (case conn c of None \<Rightarrow> w | Some s \<Rightarrow> socket_close s w)
         in case priv_connect c w1 of
              (Inl e, c2, w2) \<Rightarrow> (False, c2, w2)
            | (Inr u, c2, w2) \<Rightarrow>
                (case priv_fire K (handshake c2 ''command'') (conn c2) of
                   (Inl e, so) \<Rightarrow> (False, c2\<lparr>conn := so\<rparr>, w2)
                 | (Inr resp, so) \<Rightarrow>
                     (if err resp \<noteq> [] then (False, c2\<lparr>conn := so\<rparr>, w2)
                      else (True, c2\<lparr>conn := so\<rparr>, w2))))
      else (False, c, w))"

lemma check_and_reconnect_pending:
  "check_and_reconnect K error c w = (True, c2, w2) \<Longrightarrow> length (pending w2) < length (pending w)"
  by (auto simp: check_and_reconnect_def priv_connect_def socket_connect_def socket_close_def
        Let_def split: if_splits option.splits prod.splits sum.splits list.splits
        dial_outcome.splits)

function fire :: "pickle \<Rightarrow> command \<Rightarrow> client \<Rightarrow> world \<Rightarrow> (exn + response) \<times> client \<times> world" where
  "fire K c cl w =
     (case priv_fire K c (conn cl) of
        (Inl e, so) \<Rightarrow> (Inl e, cl\<lparr>conn := so\<rparr>, w)
      | (Inr result, so) \<Rightarrow>
          (if err result \<noteq> [] then
             (case check_and_reconnect K (err result) (cl\<lparr>conn := so\<rparr>) w of
                (True, cl2, w2) \<Rightarrow> fire K c cl2 w2
              | (False, cl2, w2) \<Rightarrow> (Inr result, cl2, w2))
           else (Inr result, cl\<lparr>conn := so\<rparr>, w)))"
  by pat_completeness auto
termination
  by (relation "measure (\<lambda>(K, c, cl, w). length (pending w))")
     (auto dest: check_and_reconnect_pending [OF sym])

declare fire.simps [simp del]

definition fire_string :: "pickle \<Rightarrow> string \<Rightarrow> client \<Rightarrow> world \<Rightarrow> (exn + response) \<times> client \<times> world" where
  "fire_string K cmd_str cl w =
     (let tokens = py_split (py_strip cmd_str)
      in case tokens of
           [] \<Rightarrow> (Inl IndexError, cl, w)
         | t # ts \<Rightarrow> fire K (Command t (if length tokens > 1 then ts else [])) cl w)"



text \<open>
  What the method \<^verbatim>\<open>watch_ch\<close> returns: the tuple
  \<^verbatim>\<open>(self.watch_ch, self.watch_queue)\<close>, or \<^verbatim>\<open>self.watch_ch\<close> alone. The event is given
  by its flag and the queue by its content; both stand for the client's own objects.
\<close>

datatype watch_ret =
    Handles bool "response list"
  | EventOnly bool

text \<open>
  The body of the method \<^verbatim>\<open>watch_ch\<close>, run with the client as \<^verbatim>\<open>self\<close>. (The
  constructor stores \<^verbatim>\<open>None\<close> in an instance attribute of the same name, so the
  method is reached through the class.)
\<close>

definition watch_ch :: "pickle \<Rightarrow> client \<Rightarrow> world \<Rightarrow> (exn + watch_ret) \<times> client \<times> world" where
  "watch_ch K cl w =
     (case watch_ch_attr cl of
        Some ev \<Rightarrow> (Inr (EventOnly ev), cl, w)
      | None \<Rightarrow>
          (let c1 = cl\<lparr>watch_ch_attr := Some False, watch_queue := []\<rparr>
           in case socket_connect w of
                (Inl m, s, w1) \<Rightarrow>
                  (Inl (ConnectionError (''Failed to setup watch connection: '' @ m)),
                   c1\<lparr>watch_conn := Some s, watch_ch_attr := None\<rparr>, w1)
              | (Inr u, s, w1) \<Rightarrow>
                  (case priv_fire K (handshake c1 ''watch'') (Some s) of
                     (Inl e, so) \<Rightarrow>
                       (Inl (ConnectionError
                               (''Failed to setup watch connection: '' @ str_of_exn e)),
                        c1\<lparr>watch_conn := so, watch_ch_attr := None\<rparr>, w1)
                   | (Inr resp, so) \<Rightarrow>
                       (if err resp \<noteq> [] then
                          (Inl (ConnectionError
                                  (''Failed to setup watch connection: '' @
                                   ''Could not complete the watch handshake: '' @ err resp)),
                           c1\<lparr>watch_conn := so, watch_ch_attr := None\<rparr>, w1)
                        else
                          (Inr (Handles False []),
                           c1\<lparr>watch_conn := so, priv_watch_thread := True\<rparr>,
                           w1\<lparr>threads_started := Suc (threads_started w1)\<rparr>)))))"

text \<open>
  The background thread \<^verbatim>\<open>_watch\<close>. The list \<open>sched\<close> has one entry for each test of
  the loop condition: whether another thread has set the event since the test before.
  When the list is used up the loop has not ended: the result is \<open>Running\<close>, with the
  state reached. \<open>Returned\<close> is the end of the function, \<open>Died\<close> an exception that
  nothing caught.
\<close>

datatype loop_exit = Running | Returned | Died exn

definition watch_read :: "pickle \<Rightarrow> sock option \<Rightarrow> (exn + response) \<times> sock option" where
  "watch_read K so =
     (case so of
        None \<Rightarrow> (Inl AttributeError, None)
      | Some s \<Rightarrow> (case dice_io_read K s of (r, s') \<Rightarrow> (r, Some s')))"

fun priv_watch :: "pickle \<Rightarrow> bool list \<Rightarrow> client \<Rightarrow> world \<Rightarrow> loop_exit \<times> client \<times> world" where
  "priv_watch K [] cl w = (Running, cl, w)"
| "priv_watch K (stop # sched) cl w =
     (case watch_ch_attr cl of
        None \<Rightarrow> (Died AttributeError, cl, w)
      | Some ev \<Rightarrow>
          (if ev \<or> stop then (Returned, cl\<lparr>watch_ch_attr := Some True\<rparr>, w)
           else
             (case watch_read K (watch_conn cl) of
                (Inr resp, so) \<Rightarrow>
                  priv_watch K sched
                    (cl\<lparr>watch_conn := so, watch_queue := watch_queue cl @ [resp]\<rparr>) w
              | (Inl e, so) \<Rightarrow>
                  (case check_and_reconnect K (str_of_exn e) (cl\<lparr>watch_conn := so\<rparr>) w of
                     (True, cl2, w2) \<Rightarrow> priv_watch K sched cl2 w2
                   | (False, cl2, w2) \<Rightarrow>
                       (Returned,
                        cl2\<lparr>watch_queue :=
                              watch_queue cl2 @
                              [Response_err (''Watch error: '' @ str_of_exn e)]\<rparr>,
                        w2)))))"

definition close :: "client \<Rightarrow> world \<Rightarrow> client \<times> world" where
  "close cl w =
     (let c1 = (case watch_ch_attr cl of None \<Rightarrow> cl | Some ev \<Rightarrow> cl\<lparr>watch_ch_attr := Some True\<rparr>);
          w1 = (case conn c1 of None \<Rightarrow> w | Some s \<Rightarrow> socket_close s w);
          c2 = c1\<lparr>conn := map_option (\<lambda>s. s\<lparr>closed := True\<rparr>) (conn c1)\<rparr>;
          w2 = (case watch_conn c2 of None \<Rightarrow> w1 | Some s \<Rightarrow> socket_close s w1);
          c3 = c2\<lparr>watch_conn := map_option (\<lambda>s. s\<lparr>closed := True\<rparr>) (watch_conn c2)\<rparr>
      in (c3, w2))"

subsection \<open>A sample serializer and sample responses\<close>

text \<open>
  Concrete values for the closed instances below: a serializer that writes a Command as
  its words, each followed by a zero byte, and that reads \<open>[1]\<close> as a PONG reply,
  \<open>[2]\<close> as an error reply and nothing else.
\<close>

definition pong :: response where
  "pong = \<lparr>err = [], value_type = Some T_STR, rvalue = PyStr ''PONG'', attrs = None,
            v_list = None, v_ss_map = None\<rparr>"

definition sample_dumps :: "command \<Rightarrow> byte list" where
  "sample_dumps c = concat (map (\<lambda>w. map (\<lambda>ch. of_nat (of_char ch)) w @ [0]) (cmd c # args c))"

definition sample_loads :: "byte list \<Rightarrow> string + response" where
  "sample_loads bs =
     (if bs = [1] then Inr pong
      else if bs = [2] then Inr (Response_err ''EOF'')
      else Inl ''invalid load key'')"

definition sample_pickle :: pickle where
  "sample_pickle = \<lparr>dumps = sample_dumps, loads = sample_loads\<rparr>"

definition sample_client :: "sock \<Rightarrow> client" where
  "sample_client s =
     \<lparr>host = ''localhost'', port = 7379, ident = ''id-1'', conn = Some s, watch_conn = None,
      watch_ch_attr = None, watch_queue = [], priv_watch_thread = False\<rparr>"

definition sample_sock :: "recv_event list \<Rightarrow> sock" where
  "sample_sock ib = \<lparr>connected = True, closed = False, inbox = ib, sendres = [], sent = []\<rparr>"

definition sample_world :: "dial_outcome list \<Rightarrow> world" where
  "sample_world ds = \<lparr>pending = ds, dials = 0, closed_socks = [], threads_started = 0\<rparr>"

definition sample_watch_client :: "sock \<Rightarrow> sock \<Rightarrow> client" where
  "sample_watch_client s ws =
     \<lparr>host = ''localhost'', port = 7379, ident = ''id-1'', conn = Some s,
      watch_conn = Some ws, watch_ch_attr = Some False, watch_queue = [],
      priv_watch_thread = True\<rparr>"

text \<open>
  A control connection whose first read fails with a broken pipe, and a server that
  accepts two further connections: on the first the handshake is answered and the next
  read fails again, on the second everything is answered.
\<close>

definition broken_pipe_client :: client where
  "broken_pipe_client = sample_client (sample_sock [SocketError ''[Errno 32] Broken pipe''])"

definition two_dial_world :: world where
  "two_dial_world =
     sample_world
       [Accepted [Chunk [1], SocketError ''[Errno 32] Broken pipe''] [],
        Accepted [Chunk [1], Chunk [1]] []]"

subsection \<open>Environments without foreign exceptions\<close>






section \<open>Properties\<close>

subsection \<open>Value accessors\<close>

text \<open>
  Claim C8. Each typed accessor of a Response returns the stored value when the type tag
  is the one of its kind, and its default otherwise: \<open>0\<close> for \<open>v_int\<close>, the empty string
  for \<open>v_str\<close>, \<open>0.0\<close> for \<open>v_float\<close>, the empty byte string for \<open>v_bytes\<close>; \<open>v_nil\<close>
  holds exactly when the tag is NIL. The accessors are total: none of them raises.
\<close>

theorem accessors_default:
  "v_int r = (if value_type r = Some T_INT then rvalue r else PyInt 0) \<and>
   v_str r = (if value_type r = Some T_STR then rvalue r else PyStr []) \<and>
   v_float r = (if value_type r = Some T_FLOAT then rvalue r else PyFloat 0) \<and>
   v_bytes r = (if value_type r = Some T_BYTES then rvalue r else PyBytes []) \<and>
   v_nil r = (value_type r = Some T_NIL)"
  by (simp add: v_int_def v_str_def v_float_def v_bytes_def v_nil_def)

theorem accessors_default_witness:
  "v_int pong = PyInt 0 \<and> v_str pong = PyStr ''PONG'' \<and> v_float pong = PyFloat 0 \<and>
   v_bytes pong = PyBytes [] \<and> \<not> v_nil pong"
  using accessors_default [of pong] by (simp add: pong_def)

subsection \<open>The codec\<close>



subsection \<open>The size limit of read\<close>

lemma IO_BUFFER_SIZE_pos: "0 < IO_BUFFER_SIZE"
  by (simp add: IO_BUFFER_SIZE_def)

lemma read_loop_too_large:
  "connected s \<Longrightarrow> \<not> closed s \<Longrightarrow> inbox s = map Chunk cs @ Chunk c # rest \<Longrightarrow>
   \<forall>b\<in>set cs. length b = IO_BUFFER_SIZE \<Longrightarrow> c \<noteq> [] \<Longrightarrow>
   MAX_REQUEST_SIZE < length result + length (concat cs) + min (length c) IO_BUFFER_SIZE \<Longrightarrow>
   fst (read_loop K s result) = Inr (Response_err ''Request too large'')"
proof (induction cs arbitrary: s result)
  case Nil
  then show ?case
    using IO_BUFFER_SIZE_pos by (subst read_loop.simps) (auto simp: recv_def min_def)
next
  case (Cons b cs)
  let ?s' = "s\<lparr>inbox := map Chunk cs @ Chunk c # rest\<rparr>"
  from Cons.prems have len: "length b = IO_BUFFER_SIZE" by simp
  with Cons.prems have r: "recv IO_BUFFER_SIZE s = (RecvBytes b, ?s')"
    by (simp add: recv_def)
  from len IO_BUFFER_SIZE_pos have ne: "b \<noteq> []" by auto
  show ?case
  proof (cases "MAX_REQUEST_SIZE < length result + length b")
    case True
    with r ne show ?thesis by (subst read_loop.simps) simp
  next
    case False
    have "fst (read_loop K ?s' (result @ b)) = Inr (Response_err ''Request too large'')"
      using Cons.prems by (intro Cons.IH) (auto simp: add.assoc)
    with False r ne len show ?thesis by (subst read_loop.simps) simp
  qed
qed

lemma read_first_empty:
  "connected s \<Longrightarrow> \<not> closed s \<Longrightarrow> inbox s = [] \<or> (\<exists>rest. inbox s = Chunk [] # rest) \<Longrightarrow>
   fst (dice_io_read K s) = Inr (Response_err ''Empty response or connection closed'')"
  unfolding dice_io_read_def
  by (subst read_loop.simps) (auto simp: recv_def read_finish_def)

text \<open>
  Claim C7. \<open>read\<close> enforces the limit of 32 MiB on what it accumulates. At any point
  of its loop, when the next \<^verbatim>\<open>recv\<close> returns a non-empty chunk that would take the
  bytes accumulated so far beyond 32 MiB, \<open>read\<close> returns the error Response
  \<^verbatim>\<open>Request too large\<close> and no data. Seen from the stream: let it deliver full buffers
  \<open>cs\<close> (each of \<open>IO_BUFFER_SIZE\<close> bytes, so the loop goes on after each) and then a
  non-empty piece \<open>c\<close>, of which one \<^verbatim>\<open>recv\<close> takes at most a buffer; if all of this
  exceeds 32 MiB, the result is that error Response. And when the first \<^verbatim>\<open>recv\<close> returns
  no byte, nothing having been read before, \<open>read\<close> returns the error Response
  \<^verbatim>\<open>Empty response or connection closed\<close>.
\<close>

theorem read_size_limit:
  "(recv IO_BUFFER_SIZE s1 = (RecvBytes chunk, s1') \<and> chunk \<noteq> [] \<and>
    32 * 1024 * 1024 < length result + length chunk \<longrightarrow>
      read_loop K s1 result = (Inr (Response_err ''Request too large''), s1')) \<and>
   (connected s \<and> \<not> closed s \<and> inbox s = map Chunk cs @ Chunk c # rest \<and>
    (\<forall>b\<in>set cs. length b = IO_BUFFER_SIZE) \<and> c \<noteq> [] \<and>
    32 * 1024 * 1024 < length (concat cs) + min (length c) IO_BUFFER_SIZE \<longrightarrow>
      fst (dice_io_read K s) = Inr (Response_err ''Request too large'')) \<and>
   (connected s2 \<and> \<not> closed s2 \<and> (inbox s2 = [] \<or> (\<exists>rest. inbox s2 = Chunk [] # rest)) \<longrightarrow>
      fst (dice_io_read K s2) = Inr (Response_err ''Empty response or connection closed''))"
proof (intro conjI impI)
  assume "recv IO_BUFFER_SIZE s1 = (RecvBytes chunk, s1') \<and> chunk \<noteq> [] \<and>
    32 * 1024 * 1024 < length result + length chunk"
  then show "read_loop K s1 result = (Inr (Response_err ''Request too large''), s1')"
    by (subst read_loop.simps) (simp add: MAX_REQUEST_SIZE_def)
next
  assume a: "connected s \<and> \<not> closed s \<and> inbox s = map Chunk cs @ Chunk c # rest \<and>
    (\<forall>b\<in>set cs. length b = IO_BUFFER_SIZE) \<and> c \<noteq> [] \<and>
    32 * 1024 * 1024 < length (concat cs) + min (length c) IO_BUFFER_SIZE"
  then have "MAX_REQUEST_SIZE <
      length ([] :: byte list) + length (concat cs) + min (length c) IO_BUFFER_SIZE"
    by (simp add: MAX_REQUEST_SIZE_def)
  with a show "fst (dice_io_read K s) = Inr (Response_err ''Request too large'')"
    unfolding dice_io_read_def by (intro read_loop_too_large) auto
next
  assume "connected s2 \<and> \<not> closed s2 \<and> (inbox s2 = [] \<or> (\<exists>rest. inbox s2 = Chunk [] # rest))"
  then show "fst (dice_io_read K s2) = Inr (Response_err ''Empty response or connection closed'')"
    by (intro read_first_empty) auto
qed

theorem read_size_limit_witness:
  "read_loop sample_pickle (sample_sock [Chunk [1]]) (replicate (32 * 1024 * 1024) 0) =
     (Inr (Response_err ''Request too large''), sample_sock []) \<and>
   fst (dice_io_read sample_pickle
          (sample_sock (map Chunk (replicate 2048 (replicate 16384 0)) @ [Chunk [1]]))) =
     Inr (Response_err ''Request too large'') \<and>
   fst (dice_io_read sample_pickle (sample_sock [])) =
     Inr (Response_err ''Empty response or connection closed'')"
proof -
  have r: "recv IO_BUFFER_SIZE (sample_sock [Chunk [1]]) = (RecvBytes [1], sample_sock [])"
    by (simp add: recv_def sample_sock_def IO_BUFFER_SIZE_def)
  from r read_size_limit [of "sample_sock [Chunk [1]]" "[1]" "sample_sock []"
      "replicate (32 * 1024 * 1024) 0" sample_pickle
      "sample_sock (map Chunk (replicate 2048 (replicate 16384 0)) @ [Chunk [1]])"
      "replicate 2048 (replicate 16384 0)" "[1]" "[]" "sample_sock []"]
  show ?thesis
    by (simp add: sample_sock_def IO_BUFFER_SIZE_def length_concat sum_list_replicate)
qed

text \<open>A message of exactly 32 MiB is within the limit.\<close>

lemma read_loop_full_chunks:
  "connected s \<Longrightarrow> \<not> closed s \<Longrightarrow> inbox s = map Chunk cs @ rest \<Longrightarrow>
   \<forall>b\<in>set cs. length b = IO_BUFFER_SIZE \<Longrightarrow>
   length result + length (concat cs) \<le> MAX_REQUEST_SIZE \<Longrightarrow>
   read_loop K s result = read_loop K (s\<lparr>inbox := rest\<rparr>) (result @ concat cs)"
proof (induction cs arbitrary: s result)
  case Nil
  then have "s\<lparr>inbox := rest\<rparr> = s" by (cases s) simp
  then show ?case by simp
next
  case (Cons b cs)
  let ?s' = "s\<lparr>inbox := map Chunk cs @ rest\<rparr>"
  from Cons.prems have len: "length b = IO_BUFFER_SIZE" by simp
  with Cons.prems have r: "recv IO_BUFFER_SIZE s = (RecvBytes b, ?s')"
    by (simp add: recv_def)
  from len IO_BUFFER_SIZE_pos have ne: "b \<noteq> []" by auto
  have "read_loop K s result = read_loop K ?s' (result @ b)"
    using r ne len Cons.prems(5) by (subst read_loop.simps) simp
  also have "\<dots> = read_loop K (?s'\<lparr>inbox := rest\<rparr>) ((result @ b) @ concat cs)"
    using Cons.prems by (intro Cons.IH) auto
  finally show ?case by simp
qed

lemma read_exact_limit:
  assumes "connected s" "\<not> closed s" "inbox s = map Chunk cs"
    "\<forall>b\<in>set cs. length b = IO_BUFFER_SIZE" "length (concat cs) = MAX_REQUEST_SIZE"
  shows "fst (dice_io_read K s) = Inr (deserialize K (concat cs))"
proof -
  let ?s' = "s\<lparr>inbox := []\<rparr>"
  have ne: "concat cs \<noteq> []"
  proof -
    from assms(5) have "length (concat cs) \<noteq> 0" by (simp add: MAX_REQUEST_SIZE_def)
    then show ?thesis using length_0_conv [of "concat cs"] by blast
  qed
  have "read_loop K s [] = read_loop K ?s' ([] @ concat cs)"
    using assms by (intro read_loop_full_chunks) auto
  also have "\<dots> = read_loop K ?s' (concat cs)" by (simp only: append_Nil)
  also have "\<dots> = (Inr (read_finish K (concat cs)), ?s')"
    using assms(1,2) by (subst read_loop.simps) (simp add: recv_def)
  finally have "fst (dice_io_read K s) = Inr (read_finish K (concat cs))"
    by (simp only: dice_io_read_def fst_conv)
  with ne show ?thesis by (simp only: read_finish_def if_False)
qed

subsection \<open>Splitting a command string\<close>

lemma split_acc_concat:
  "concat (split_acc tok s) = rev tok @ filter (\<lambda>ch. \<not> py_isspace ch) s"
  by (induction tok s rule: split_acc.induct) auto

lemma split_acc_nonempty: "[] \<notin> set (split_acc tok s)"
  by (induction tok s rule: split_acc.induct) simp_all

text \<open>
  The tokens of \<open>py_split\<close> are what the string has between its whitespace: no token is
  empty, no token holds a whitespace character, and together they are the string
  without its whitespace.
\<close>

lemma py_split_tokens:
  assumes "t \<in> set (py_split s)"
  shows "t \<noteq> [] \<and> (\<forall>ch\<in>set t. \<not> py_isspace ch)"
proof
  show "t \<noteq> []"
    using assms split_acc_nonempty [of "[]" s] by (auto simp: py_split_def)
  show "\<forall>ch\<in>set t. \<not> py_isspace ch"
  proof
    fix ch assume "ch \<in> set t"
    with assms have "ch \<in> set (concat (py_split s))" by auto
    then show "\<not> py_isspace ch" by (simp add: py_split_def split_acc_concat)
  qed
qed

lemma py_split_concat: "concat (py_split s) = filter (\<lambda>ch. \<not> py_isspace ch) s"
  by (simp add: py_split_def split_acc_concat)

lemma split_acc_dropWhile: "split_acc [] (dropWhile py_isspace s) = split_acc [] s"
  by (induction s) auto

lemma split_acc_snoc_ws: "py_isspace ch \<Longrightarrow> split_acc tok (s @ [ch]) = split_acc tok s"
  by (induction s arbitrary: tok) auto

lemma split_acc_append_ws:
  "\<forall>ch\<in>set t. py_isspace ch \<Longrightarrow> split_acc tok (s @ t) = split_acc tok s"
proof (induction t rule: rev_induct)
  case Nil
  then show ?case by simp
next
  case (snoc x xs)
  then show ?case using split_acc_snoc_ws [of x tok "s @ xs"] by simp
qed

lemma rstrip_decomp: "\<exists>t. s = rev (dropWhile P (rev s)) @ t \<and> (\<forall>ch\<in>set t. P ch)"
proof -
  have "takeWhile P (rev s) @ dropWhile P (rev s) = rev s" by simp
  then have "rev (takeWhile P (rev s) @ dropWhile P (rev s)) = s"
    by (simp only: rev_rev_ident)
  then have "s = rev (dropWhile P (rev s)) @ rev (takeWhile P (rev s))"
    by (simp only: rev_append)
  moreover have "\<forall>ch\<in>set (rev (takeWhile P (rev s))). P ch"
    by (auto dest: set_takeWhileD)
  ultimately show ?thesis by blast
qed

text \<open>The call of \<^verbatim>\<open>strip\<close> before \<^verbatim>\<open>split\<close> changes nothing.\<close>

lemma py_split_strip: "py_split (py_strip s) = py_split s"
proof -
  obtain t where t: "dropWhile py_isspace s = py_strip s @ t" "\<forall>ch\<in>set t. py_isspace ch"
    unfolding py_strip_def
    using rstrip_decomp [of "dropWhile py_isspace s" py_isspace] by blast
  have "split_acc [] (py_strip s) = split_acc [] (py_strip s @ t)"
    using t(2) by (simp only: split_acc_append_ws)
  also have "\<dots> = split_acc [] (dropWhile py_isspace s)" using t(1) by simp
  also have "\<dots> = split_acc [] s" by (rule split_acc_dropWhile)
  finally show ?thesis by (simp only: py_split_def)
qed

lemma dropWhile_all: "\<forall>ch\<in>set s. P ch \<Longrightarrow> dropWhile P s = []"
  by (induction s) auto

text \<open>
  Claim C9. When the string has at least one whitespace-delimited token, \<open>fire_string\<close>
  builds the Command whose name is the first token and whose arguments are the tokens
  that follow, in order, and its result is the result of \<open>fire\<close> on that Command.
\<close>

theorem fire_string_tokens:
  "py_split s = t # ts \<Longrightarrow> fire_string K s cl w = fire K (Command t ts) cl w"
  by (cases ts) (simp_all add: fire_string_def py_split_strip)

theorem fire_string_tokens_witness:
  "py_split ''  SET  k v '' = [''SET'', ''k'', ''v''] \<and>
   fire_string sample_pickle ''  SET  k v '' (sample_client (sample_sock [Chunk [1]]))
     (sample_world []) =
   fire sample_pickle (Command ''SET'' [''k'', ''v'']) (sample_client (sample_sock [Chunk [1]]))
     (sample_world [])"
proof -
  have h: "py_split ''  SET  k v '' = [''SET'', ''k'', ''v'']"
    by (simp add: py_split_def py_isspace_def)
  show ?thesis using h fire_string_tokens [OF h] by simp
qed

text \<open>
  Claim C10. When the string is empty or holds only whitespace, \<open>fire_string\<close> raises
  \<^verbatim>\<open>IndexError\<close>: there is no first token. Nothing is sent, and the client and the
  network stay as they were.
\<close>

theorem fire_string_empty_IndexError:
  "\<forall>ch\<in>set s. py_isspace ch \<Longrightarrow> fire_string K s cl w = (Inl IndexError, cl, w)"
  by (simp add: fire_string_def py_strip_def py_split_def dropWhile_all)

theorem fire_string_empty_IndexError_witness:
  "list_all py_isspace ''   '' \<and>
   fire_string sample_pickle ''   '' (sample_client (sample_sock [])) (sample_world []) =
     (Inl IndexError, sample_client (sample_sock []), sample_world []) \<and>
   fire_string sample_pickle [] (sample_client (sample_sock [])) (sample_world []) =
     (Inl IndexError, sample_client (sample_sock []), sample_world [])"
proof -
  have h: "\<forall>ch\<in>set ''   ''. py_isspace ch" by (simp add: py_isspace_def)
  have h0: "\<forall>ch\<in>set []. py_isspace ch" by simp
  show ?thesis
    using h fire_string_empty_IndexError [OF h] fire_string_empty_IndexError [OF h0]
    by (simp add: list_all_iff)
qed

subsection \<open>Failures are values\<close>










text \<open>What \<open>read\<close> returns on the simplest streams; used to run the model on given inputs.\<close>

lemma read_short_chunk:
  "connected s \<Longrightarrow> \<not> closed s \<Longrightarrow> inbox s = Chunk bs # rest \<Longrightarrow> bs \<noteq> [] \<Longrightarrow>
   length bs < IO_BUFFER_SIZE \<Longrightarrow>
   dice_io_read K s = (Inr (deserialize K bs), s\<lparr>inbox := rest\<rparr>)"
  unfolding dice_io_read_def
  by (subst read_loop.simps)
     (simp add: recv_def read_finish_def MAX_REQUEST_SIZE_def IO_BUFFER_SIZE_def)

lemma read_socket_error:
  "connected s \<Longrightarrow> \<not> closed s \<Longrightarrow> inbox s = SocketError m # rest \<Longrightarrow>
   dice_io_read K s = (Inr (Response_err m), s\<lparr>inbox := rest\<rparr>)"
  unfolding dice_io_read_def
  by (subst read_loop.simps) (simp add: recv_def)

lemma read_raise:
  "connected s \<Longrightarrow> \<not> closed s \<Longrightarrow> inbox s = Raise m # rest \<Longrightarrow>
   dice_io_read K s = (Inl (Raised m), s\<lparr>inbox := rest\<rparr>)"
  unfolding dice_io_read_def
  by (subst read_loop.simps) (simp add: recv_def)

lemma read_eof:
  "connected s \<Longrightarrow> \<not> closed s \<Longrightarrow> inbox s = [] \<Longrightarrow>
   dice_io_read K s = (Inr (Response_err ''Empty response or connection closed''), s)"
  unfolding dice_io_read_def
  by (subst read_loop.simps) (simp add: recv_def read_finish_def)

lemmas run_simps =
  sample_client_def sample_watch_client_def sample_sock_def sample_world_def
  broken_pipe_client_def two_dial_world_def
  priv_fire_def dice_io_write_def sendall_def serialize_def
  read_short_chunk read_socket_error read_raise read_eof
  check_and_reconnect_def priv_connect_def socket_connect_def socket_close_def new_sock_def
  handshake_def deserialize_def sample_pickle_def sample_loads_def Response_err_def pong_def
  IO_BUFFER_SIZE_def Let_def


subsection \<open>Reconnection and retry in fire\<close>

text \<open>Reading changes nothing of a socket but its inbox.\<close>

lemma recv_fields:
  "recv n s = (r, s') \<Longrightarrow>
   sent s' = sent s \<and> sendres s' = sendres s \<and> connected s' = connected s \<and>
   closed s' = closed s"
  by (auto simp: recv_def split: if_splits list.splits recv_event.splits)

lemma read_loop_fields:
  "sent (snd (read_loop K s result)) = sent s \<and>
   connected (snd (read_loop K s result)) = connected s \<and>
   closed (snd (read_loop K s result)) = closed s"
proof (induction K s result rule: read_loop.induct)
  case (1 K s result)
  obtain r s' where rs: "recv IO_BUFFER_SIZE s = (r, s')" by (cases "recv IO_BUFFER_SIZE s")
  note f = recv_fields [OF rs]
  show ?case
  proof (cases r)
    case (RecvBytes chunk)
    show ?thesis
    proof (cases "chunk \<noteq> [] \<and> \<not> MAX_REQUEST_SIZE < length result + length chunk \<and>
                  \<not> length chunk < IO_BUFFER_SIZE")
      case True
      then show ?thesis
        using "1.IH" [OF rs [symmetric] RecvBytes] rs RecvBytes f
        by (subst (1 2 3) read_loop.simps) simp
    next
      case False
      with rs RecvBytes f show ?thesis by (subst (1 2 3) read_loop.simps) auto
    qed
  next
    case (RecvSocketError m)
    with rs f show ?thesis by (subst (1 2 3) read_loop.simps) simp
  next
    case (RecvRaised m)
    with rs f show ?thesis by (subst (1 2 3) read_loop.simps) simp
  qed
qed

text \<open>A handshake or command that was answered without error was sent.\<close>

lemma priv_fire_sent:
  assumes "priv_fire K c (Some s) = (Inr r, so)" "err r = []"
  shows "\<exists>s'. so = Some s' \<and> sent s' = sent s @ [serialize K c] \<and>
           connected s' = connected s \<and> closed s' = closed s"
proof -
  obtain b s1 where w: "dice_io_write K s c = (b, s1)" by (cases "dice_io_write K s c")
  show ?thesis
  proof (cases b)
    case False
    with assms w show ?thesis by (auto simp: priv_fire_def Response_err_def)
  next
    case True
    with w have s1: "sent s1 = sent s @ [serialize K c] \<and> connected s1 = connected s \<and>
        closed s1 = closed s"
      by (auto simp: dice_io_write_def sendall_def split: if_splits list.splits)
    from True w assms(1) have "so = Some (snd (read_loop K s1 []))"
      by (auto simp: priv_fire_def dice_io_read_def split: prod.splits)
    with s1 read_loop_fields [of K s1 "[]"] show ?thesis by simp
  qed
qed

lemma check_and_reconnect_effect:
  assumes dead: "py_in ''EOF'' e \<or> py_in ''Broken pipe'' e"
    and cr: "check_and_reconnect K e c w = (ok, c2, w2)"
  shows "dials w2 = Suc (dials w) \<and>
         closed_socks w2 =
           closed_socks w @ (case conn c of None \<Rightarrow> [] | Some s \<Rightarrow> [s\<lparr>closed := True\<rparr>]) \<and>
         ident c2 = ident c \<and> watch_conn c2 = watch_conn c \<and>
         watch_ch_attr c2 = watch_ch_attr c \<and> watch_queue c2 = watch_queue c \<and>
         (ok \<longrightarrow> (\<exists>s. conn c2 = Some s \<and> connected s \<and> \<not> closed s \<and>
                    sent s = [serialize K (handshake c ''command'')]))"
proof -
  define w1 where "w1 = (case conn c of None \<Rightarrow> w | Some s \<Rightarrow> socket_close s w)"
  have w1: "dials w1 = dials w \<and>
      closed_socks w1 =
        closed_socks w @ (case conn c of None \<Rightarrow> [] | Some s \<Rightarrow> [s\<lparr>closed := True\<rparr>])"
    by (simp add: w1_def socket_close_def split: option.splits)
  obtain r c3 w3 where pc: "priv_connect c w1 = (r, c3, w3)"
    by (cases "priv_connect c w1") auto
  then have c3: "dials w3 = Suc (dials w1) \<and> closed_socks w3 = closed_socks w1 \<and>
      ident c3 = ident c \<and> watch_conn c3 = watch_conn c \<and>
      watch_ch_attr c3 = watch_ch_attr c \<and> watch_queue c3 = watch_queue c \<and>
      (\<forall>u. r = Inr u \<longrightarrow> (\<exists>s. conn c3 = Some s \<and> connected s \<and> \<not> closed s \<and> sent s = []))"
    by (auto simp: priv_connect_def socket_connect_def new_sock_def
          split: list.splits dial_outcome.splits)
  show ?thesis
  proof (cases r)
    case (Inl x)
    with dead cr pc c3 w1 show ?thesis
      by (auto simp: check_and_reconnect_def w1_def [symmetric] Let_def)
  next
    case (Inr u)
    with c3 obtain s where s: "conn c3 = Some s" "connected s" "\<not> closed s" "sent s = []"
      by auto
    have hs: "handshake c3 ''command'' = handshake c ''command''"
      using c3 by (simp add: handshake_def)
    obtain q so where pf: "priv_fire K (handshake c ''command'') (Some s) = (q, so)"
      by (cases "priv_fire K (handshake c ''command'') (Some s)") auto
    show ?thesis
    proof (cases q)
      case (Inl x)
      with dead cr pc Inr pf s hs c3 w1 show ?thesis
        by (auto simp: check_and_reconnect_def w1_def [symmetric] Let_def)
    next
      case q: (Inr resp)
      show ?thesis
      proof (cases "err resp = []")
        case False
        with dead cr pc Inr pf s hs c3 w1 q show ?thesis
          by (auto simp: check_and_reconnect_def w1_def [symmetric] Let_def)
      next
        case True
        from priv_fire_sent [OF pf [unfolded q] True] s
        obtain s' where "so = Some s'" "sent s' = [serialize K (handshake c ''command'')]"
          "connected s'" "\<not> closed s'" by auto
        with True dead cr pc Inr pf s hs c3 w1 q show ?thesis
          by (auto simp: check_and_reconnect_def w1_def [symmetric] Let_def)
      qed
    qed
  qed
qed

text \<open>
  Claim C1, as the code has it. When a request/response cycle of \<open>fire\<close> ends in a
  Response whose error message contains \<^verbatim>\<open>EOF\<close> or \<^verbatim>\<open>Broken pipe\<close>, the client makes
  exactly one reconnection attempt for that cycle: the old control connection is closed,
  one new connection is dialed, and on success the only thing sent on it is the
  handshake with the client's identity and the tag \<^verbatim>\<open>command\<close>. When the attempt
  succeeds, \<open>fire\<close> goes on as \<open>fire\<close> on the new connection, a call that follows the
  same rule again, so the retries of one call are not limited to one. When the attempt
  fails, the Response of the cycle that has just failed is the result.
\<close>

theorem fire_reconnects_per_failure:
  assumes "priv_fire K c (conn cl) = (Inr result, so)"
    and "py_in ''EOF'' (err result) \<or> py_in ''Broken pipe'' (err result)"
    and "check_and_reconnect K (err result) (cl\<lparr>conn := so\<rparr>) w = (ok, cl2, w2)"
  shows "dials w2 = Suc (dials w) \<and>
         closed_socks w2 =
           closed_socks w @ (case so of None \<Rightarrow> [] | Some s \<Rightarrow> [s\<lparr>closed := True\<rparr>]) \<and>
         (if ok
          then (\<exists>s. conn cl2 = Some s \<and> sent s = [serialize K (handshake cl ''command'')]) \<and>
               fire K c cl w = fire K c cl2 w2
          else fire K c cl w = (Inr result, cl2, w2))"
proof -
  from assms(2) have ne: "err result \<noteq> []" by (cases "err result") auto
  have hs: "handshake (cl\<lparr>conn := so\<rparr>) ''command'' = handshake cl ''command''"
    by (simp add: handshake_def)
  from check_and_reconnect_effect [OF assms(2,3)] hs
  have eff: "dials w2 = Suc (dials w)"
    "closed_socks w2 =
       closed_socks w @ (case so of None \<Rightarrow> [] | Some s \<Rightarrow> [s\<lparr>closed := True\<rparr>])"
    "ok \<longrightarrow> (\<exists>s. conn cl2 = Some s \<and> sent s = [serialize K (handshake cl ''command'')])"
    by auto
  have "fire K c cl w = (if ok then fire K c cl2 w2 else (Inr result, cl2, w2))"
    using assms(1,3) ne by (subst fire.simps) simp
  with eff show ?thesis by simp
qed


text \<open>
  A run with two retries: the first read fails with a broken pipe, the client reconnects
  and sends the command again, the read fails again, the client reconnects a second time
  and sends the command a third time. Two connections are dialed in one call.
\<close>

lemma two_dial_run:
  "fire sample_pickle (Command ''PING'' []) broken_pipe_client two_dial_world =
     (Inr pong,
      sample_client
        ((sample_sock [])
           \<lparr>sent := [sample_dumps (Command ''HANDSHAKE'' [''id-1'', ''command'']),
                     sample_dumps (Command ''PING'' [])]\<rparr>),
      (sample_world [])
        \<lparr>dials := 2,
          closed_socks :=
            [(sample_sock [])\<lparr>closed := True, sent := [sample_dumps (Command ''PING'' [])]\<rparr>,
             (sample_sock [])
               \<lparr>closed := True,
                 sent := [sample_dumps (Command ''HANDSHAKE'' [''id-1'', ''command'']),
                          sample_dumps (Command ''PING'' [])]\<rparr>]\<rparr>)"
  apply (subst fire.simps)
  apply (simp add: run_simps)
  apply (subst fire.simps)
  apply (simp add: run_simps)
  apply (subst fire.simps)
  apply (simp add: run_simps)
  done

theorem fire_single_retry_counterexample:
  "dials two_dial_world = 0 \<and>
   dials (snd (snd (fire sample_pickle (Command ''PING'' []) broken_pipe_client two_dial_world)))
     = 2 \<and>
   map sent (closed_socks (snd (snd
     (fire sample_pickle (Command ''PING'' []) broken_pipe_client two_dial_world)))) =
     [[sample_dumps (Command ''PING'' [])],
      [sample_dumps (Command ''HANDSHAKE'' [''id-1'', ''command'']),
       sample_dumps (Command ''PING'' [])]] \<and>
   map_option sent (conn (fst (snd
     (fire sample_pickle (Command ''PING'' []) broken_pipe_client two_dial_world)))) =
     Some [sample_dumps (Command ''HANDSHAKE'' [''id-1'', ''command'']),
           sample_dumps (Command ''PING'' [])] \<and>
   fst (fire sample_pickle (Command ''PING'' []) broken_pipe_client two_dial_world) = Inr pong"
  unfolding two_dial_run
  by (simp add: sample_world_def sample_sock_def two_dial_world_def sample_client_def)

theorem fire_reconnects_per_failure_witness:
  "fire sample_pickle (Command ''PING'' []) broken_pipe_client two_dial_world =
     fire sample_pickle (Command ''PING'' [])
       (sample_client
          ((sample_sock [SocketError ''[Errno 32] Broken pipe''])
             \<lparr>sent := [sample_dumps (Command ''HANDSHAKE'' [''id-1'', ''command''])]\<rparr>))
       ((sample_world [Accepted [Chunk [1], Chunk [1]] []])
          \<lparr>dials := 1,
            closed_socks :=
              [(sample_sock [])
                 \<lparr>closed := True, sent := [sample_dumps (Command ''PING'' [])]\<rparr>]\<rparr>) \<and>
   fire sample_pickle (Command ''PING'' []) broken_pipe_client
       (sample_world [Refused ''[Errno 111] Connection refused'']) =
     (Inr (Response_err ''[Errno 32] Broken pipe''),
      sample_client new_sock,
      (sample_world [])
        \<lparr>dials := 1,
          closed_socks :=
            [(sample_sock [])
               \<lparr>closed := True, sent := [sample_dumps (Command ''PING'' [])]\<rparr>]\<rparr>)"
proof -
  let ?K = sample_pickle
  let ?ping = "Command ''PING'' []"
  let ?so = "Some ((sample_sock [])\<lparr>sent := [sample_dumps ?ping]\<rparr>)"
  let ?r = "Response_err ''[Errno 32] Broken pipe''"
  let ?cl2 = "sample_client
          ((sample_sock [SocketError ''[Errno 32] Broken pipe''])
             \<lparr>sent := [sample_dumps (Command ''HANDSHAKE'' [''id-1'', ''command''])]\<rparr>)"
  let ?w2 = "(sample_world [Accepted [Chunk [1], Chunk [1]] []])
          \<lparr>dials := 1,
            closed_socks :=
              [(sample_sock [])
                 \<lparr>closed := True, sent := [sample_dumps (Command ''PING'' [])]\<rparr>]\<rparr>"
  let ?w3 = "(sample_world [])
        \<lparr>dials := 1,
          closed_socks :=
            [(sample_sock [])
               \<lparr>closed := True, sent := [sample_dumps (Command ''PING'' [])]\<rparr>]\<rparr>"
  have pf: "priv_fire ?K ?ping (conn broken_pipe_client) = (Inr ?r, ?so)"
    by (simp add: run_simps)
  have dead: "py_in ''EOF'' (err ?r) \<or> py_in ''Broken pipe'' (err ?r)"
    by (simp add: Response_err_def)
  have cr: "check_and_reconnect ?K (err ?r) (broken_pipe_client\<lparr>conn := ?so\<rparr>) two_dial_world =
      (True, ?cl2, ?w2)"
    by (simp add: run_simps)
  have cr': "check_and_reconnect ?K (err ?r) (broken_pipe_client\<lparr>conn := ?so\<rparr>)
      (sample_world [Refused ''[Errno 111] Connection refused'']) =
      (False, sample_client new_sock, ?w3)"
    by (simp add: run_simps)
  from fire_reconnects_per_failure [OF pf dead cr] fire_reconnects_per_failure [OF pf dead cr']
  show ?thesis by simp
qed

subsection \<open>Opening the watch subscription twice\<close>

text \<open>
  Claim C4 says that a second call of the method that opens the subscription returns the
  pair of stop signal and queue that the first call returned, and dials nothing. The code
  dials nothing, re-handshakes nothing and starts no thread, but what it returns is the
  event alone: with the subscription open, \<open>watch_ch\<close> returns \<^verbatim>\<open>self.watch_ch\<close>, not the
  tuple \<^verbatim>\<open>(self.watch_ch, self.watch_queue)\<close> of the first call and of its docstring, and
  leaves the client and the network as they are.
\<close>

theorem watch_ch_open_returns_event_only:
  "watch_ch_attr cl = Some ev \<Longrightarrow> watch_ch K cl w = (Inr (EventOnly ev), cl, w)"
  by (simp add: watch_ch_def)

theorem watch_ch_open_returns_event_only_witness:
  "watch_ch sample_pickle (sample_client (sample_sock [])) (sample_world [Accepted [Chunk [1]] []]) =
     (Inr (Handles False []),
      sample_watch_client (sample_sock [])
        ((sample_sock [])\<lparr>sent := [sample_dumps (Command ''HANDSHAKE'' [''id-1'', ''watch''])]\<rparr>),
      (sample_world [])\<lparr>dials := 1, threads_started := 1\<rparr>) \<and>
   watch_ch sample_pickle
     (sample_watch_client (sample_sock [])
        ((sample_sock [])\<lparr>sent := [sample_dumps (Command ''HANDSHAKE'' [''id-1'', ''watch''])]\<rparr>))
     ((sample_world [])\<lparr>dials := 1, threads_started := 1\<rparr>) =
     (Inr (EventOnly False),
      sample_watch_client (sample_sock [])
        ((sample_sock [])\<lparr>sent := [sample_dumps (Command ''HANDSHAKE'' [''id-1'', ''watch''])]\<rparr>),
      (sample_world [])\<lparr>dials := 1, threads_started := 1\<rparr>)"
proof -
  let ?cl1 = "sample_watch_client (sample_sock [])
        ((sample_sock [])\<lparr>sent := [sample_dumps (Command ''HANDSHAKE'' [''id-1'', ''watch''])]\<rparr>)"
  have a: "watch_ch_attr ?cl1 = Some False" by (simp add: sample_watch_client_def)
  have first: "watch_ch sample_pickle (sample_client (sample_sock []))
      (sample_world [Accepted [Chunk [1]] []]) =
     (Inr (Handles False []), ?cl1, (sample_world [])\<lparr>dials := 1, threads_started := 1\<rparr>)"
    by (simp add: watch_ch_def run_simps)
  from first watch_ch_open_returns_event_only [OF a] show ?thesis by simp
qed

subsection \<open>The watch loop\<close>



text \<open>
  Once the peer has closed the watch connection, every turn of the loop appends one more
  error Response and changes nothing else.
\<close>

lemma watch_eof_flood:
  "watch_ch_attr cl = Some False \<Longrightarrow> watch_conn cl = Some s \<Longrightarrow> connected s \<Longrightarrow>
   \<not> closed s \<Longrightarrow> inbox s = [] \<Longrightarrow>
   priv_watch K (replicate n False @ sched) cl w =
     priv_watch K sched
       (cl\<lparr>watch_queue :=
             watch_queue cl @ replicate n (Response_err ''Empty response or connection closed'')\<rparr>)
       w"
proof (induction n arbitrary: cl)
  case 0
  then show ?case by simp
next
  case (Suc n)
  let ?cl' = "cl\<lparr>watch_queue := watch_queue cl @ [Response_err ''Empty response or connection closed'']\<rparr>"
  from Suc.prems(2) have same: "cl\<lparr>watch_conn := Some s\<rparr> = cl" by (cases cl) simp
  have "priv_watch K (replicate (Suc n) False @ sched) cl w =
        priv_watch K (replicate n False @ sched)
          (cl\<lparr>watch_conn := Some s,
               watch_queue := watch_queue cl @
                 [Response_err ''Empty response or connection closed'']\<rparr>) w"
    using Suc.prems by (simp add: watch_read_def read_eof)
  also have "\<dots> = priv_watch K (replicate n False @ sched) ?cl' w"
    by (simp only: same)
  also have "\<dots> = priv_watch K sched
       (?cl'\<lparr>watch_queue :=
             watch_queue ?cl' @ replicate n (Response_err ''Empty response or connection closed'')\<rparr>) w"
    using Suc.prems by (intro Suc.IH) simp_all
  finally show ?case by (simp add: replicate_app_Cons_same)
qed

text \<open>
  Claim C3 says that a failed read of the watch connection leads to a reconnection
  attempt and, when that fails, to a terminal error Response and the end of the loop.
  In the code \<open>read\<close> turns a \<^verbatim>\<open>socket.error\<close> into a Response itself, so the handler of
  the loop is not reached: the loop appends that Response as an ordinary entry, makes no
  reconnection attempt and goes on. When the peer has closed the connection, every turn
  appends \<^verbatim>\<open>Empty response or connection closed\<close> again, and the loop is still running
  after any number of turns in which the event is not set.
\<close>

theorem watch_socket_error_not_terminal:
  "(watch_ch_attr cl = Some False \<and> watch_conn cl = Some s \<and> connected s \<and> \<not> closed s \<and>
    inbox s = SocketError m # rest \<longrightarrow>
      priv_watch K (False # sched) cl w =
        priv_watch K sched
          (cl\<lparr>watch_conn := Some (s\<lparr>inbox := rest\<rparr>),
               watch_queue := watch_queue cl @ [Response_err m]\<rparr>) w) \<and>
   (watch_ch_attr cl = Some False \<and> watch_conn cl = Some s \<and> connected s \<and> \<not> closed s \<and>
    inbox s = [] \<longrightarrow>
      priv_watch K (replicate n False) cl w =
        (Running,
         cl\<lparr>watch_queue :=
              watch_queue cl @ replicate n (Response_err ''Empty response or connection closed'')\<rparr>,
         w))"
proof (intro conjI impI)
  assume "watch_ch_attr cl = Some False \<and> watch_conn cl = Some s \<and> connected s \<and> \<not> closed s \<and>
    inbox s = SocketError m # rest"
  then show "priv_watch K (False # sched) cl w =
        priv_watch K sched
          (cl\<lparr>watch_conn := Some (s\<lparr>inbox := rest\<rparr>),
               watch_queue := watch_queue cl @ [Response_err m]\<rparr>) w"
    by (simp add: watch_read_def read_socket_error)
next
  assume "watch_ch_attr cl = Some False \<and> watch_conn cl = Some s \<and> connected s \<and> \<not> closed s \<and>
    inbox s = []"
  then show "priv_watch K (replicate n False) cl w =
        (Running,
         cl\<lparr>watch_queue :=
              watch_queue cl @ replicate n (Response_err ''Empty response or connection closed'')\<rparr>,
         w)"
    using watch_eof_flood [of cl s K n "[]" w] by simp
qed


theorem watch_socket_error_not_terminal_witness:
  "priv_watch sample_pickle [False, False, False, True]
     (sample_watch_client (sample_sock [])
        (sample_sock [SocketError ''[Errno 104] Connection reset by peer'']))
     (sample_world [Accepted [Chunk [1]] []]) =
   (Returned,
    (sample_watch_client (sample_sock []) (sample_sock []))
      \<lparr>watch_ch_attr := Some True,
        watch_queue :=
          [Response_err ''[Errno 104] Connection reset by peer'',
           Response_err ''Empty response or connection closed'',
           Response_err ''Empty response or connection closed'']\<rparr>,
    sample_world [Accepted [Chunk [1]] []]) \<and>
   priv_watch sample_pickle (replicate 3 False)
     (sample_watch_client (sample_sock []) (sample_sock []))
     (sample_world [Accepted [Chunk [1]] []]) =
   (Running,
    (sample_watch_client (sample_sock []) (sample_sock []))
      \<lparr>watch_queue := replicate 3 (Response_err ''Empty response or connection closed'')\<rparr>,
    sample_world [Accepted [Chunk [1]] []])"
proof -
  let ?K = sample_pickle
  let ?ws = "sample_sock [SocketError ''[Errno 104] Connection reset by peer'']"
  let ?cl = "sample_watch_client (sample_sock []) ?ws"
  let ?idle = "sample_watch_client (sample_sock []) (sample_sock [])"
  let ?w = "sample_world [Accepted [Chunk [1]] []]"
  have h1: "watch_ch_attr ?cl = Some False \<and> watch_conn ?cl = Some ?ws \<and> connected ?ws \<and>
      \<not> closed ?ws \<and> inbox ?ws = SocketError ''[Errno 104] Connection reset by peer'' # []"
    by (simp add: sample_watch_client_def sample_sock_def)
  have h2: "watch_ch_attr ?idle = Some False \<and> watch_conn ?idle = Some (sample_sock []) \<and>
      connected (sample_sock []) \<and> \<not> closed (sample_sock []) \<and> inbox (sample_sock []) = []"
    by (simp add: sample_watch_client_def sample_sock_def)
  from watch_socket_error_not_terminal [of ?cl ?ws "''[Errno 104] Connection reset by peer''"
      "[]" ?K "[False, False, True]" ?w] h1
  have "priv_watch ?K [False, False, False, True] ?cl ?w =
      priv_watch ?K [False, False, True]
        (?cl\<lparr>watch_conn := Some (?ws\<lparr>inbox := []\<rparr>),
              watch_queue := watch_queue ?cl @
                [Response_err ''[Errno 104] Connection reset by peer'']\<rparr>) ?w"
    by blast
  also have "\<dots> = (Returned,
      ?idle\<lparr>watch_ch_attr := Some True,
        watch_queue :=
          [Response_err ''[Errno 104] Connection reset by peer'',
           Response_err ''Empty response or connection closed'',
           Response_err ''Empty response or connection closed'']\<rparr>, ?w)"
    by (simp add: sample_watch_client_def sample_sock_def watch_read_def read_eof)
  finally have A: "priv_watch ?K [False, False, False, True] ?cl ?w = (Returned,
      ?idle\<lparr>watch_ch_attr := Some True,
        watch_queue :=
          [Response_err ''[Errno 104] Connection reset by peer'',
           Response_err ''Empty response or connection closed'',
           Response_err ''Empty response or connection closed'']\<rparr>, ?w)" .
  from watch_socket_error_not_terminal [of ?idle "sample_sock []" _ _ ?K _ ?w 3] h2
  have B: "priv_watch ?K (replicate 3 False) ?idle ?w =
      (Running,
       ?idle\<lparr>watch_queue := watch_queue ?idle @
           replicate 3 (Response_err ''Empty response or connection closed'')\<rparr>, ?w)"
    by blast
  have q: "watch_queue ?idle = []" by (simp add: sample_watch_client_def)
  from A B show ?thesis unfolding q by simp
qed

lemma check_and_reconnect_watch_fields:
  "check_and_reconnect K e c w = (b, c2, w2) \<Longrightarrow>
   watch_ch_attr c2 = watch_ch_attr c \<and> watch_queue c2 = watch_queue c \<and>
   watch_conn c2 = watch_conn c"
  using check_and_reconnect_effect [of e K c w b c2 w2]
  by (cases "py_in ''EOF'' e \<or> py_in ''Broken pipe'' e") (auto simp: check_and_reconnect_def)

text \<open>
  The loop does not end silently: when \<open>_watch\<close> returns, the event is set or the last
  entry of the queue is the terminal \<^verbatim>\<open>Watch error\<close> Response; and with the event object
  in place no exception leaves the loop.
\<close>

lemma priv_watch_exit_observable:
  "priv_watch K sched cl w = (ex, cl', w') \<Longrightarrow> watch_ch_attr cl \<noteq> None \<Longrightarrow>
   ex = Running \<or>
   ex = Returned \<and>
     (watch_ch_attr cl' = Some True \<or>
      (\<exists>m. watch_queue cl' \<noteq> [] \<and>
           last (watch_queue cl') = Response_err (''Watch error: '' @ m)))"
proof (induction sched arbitrary: cl w)
  case Nil
  then show ?case by simp
next
  case (Cons stop sched)
  from Cons.prems(2) obtain ev where ev: "watch_ch_attr cl = Some ev" by auto
  show ?case
  proof (cases "ev \<or> stop")
    case True
    with ev Cons.prems(1) show ?thesis by auto
  next
    case False
    obtain r so where rd: "watch_read K (watch_conn cl) = (r, so)"
      by (cases "watch_read K (watch_conn cl)") auto
    show ?thesis
    proof (cases r)
      case (Inr resp)
      with ev False rd Cons.prems(1)
      have "priv_watch K sched
              (cl\<lparr>watch_conn := so, watch_queue := watch_queue cl @ [resp]\<rparr>) w = (ex, cl', w')"
        by simp
      from Cons.IH [OF this] ev show ?thesis by simp
    next
      case (Inl e)
      obtain b cl2 w2 where
        cr: "check_and_reconnect K (str_of_exn e) (cl\<lparr>watch_conn := so\<rparr>) w = (b, cl2, w2)"
        by (cases "check_and_reconnect K (str_of_exn e) (cl\<lparr>watch_conn := so\<rparr>) w") auto
      from check_and_reconnect_watch_fields [OF cr] ev
      have a2: "watch_ch_attr cl2 \<noteq> None" by simp
      show ?thesis
      proof (cases b)
        case True
        with ev False rd Inl cr Cons.prems(1)
        have "priv_watch K sched cl2 w2 = (ex, cl', w')" by simp
        from Cons.IH [OF this a2] show ?thesis .
      next
        case b: False
        with ev False rd Inl cr Cons.prems(1) show ?thesis by auto
      qed
    qed
  qed
qed

end
